theory Spec2Isabelle
  imports Complex_Main "HOL-Library.AList" "HOL-Library.Sublist"
begin

section \<open>Python values, exceptions and dictionaries\<close>

text \<open>
  The configuration compiler of \<^verbatim>\<open>scaffold/config.py\<close> reads a parsed JSON document
  and builds layers, cell types and connection types from it. A dictionary is an association list in insertion order:
  \<^const>\<open>map_of\<close> reads a key and \<open>AList.update\<close> assigns one (in place when the key
  exists, at the end otherwise), which is the behaviour of a Python \<^verbatim>\<open>dict\<close>.
\<close>

datatype json =
    JNull
  | JBool bool
  | JInt int
  | JFloat real
  | JStr string
  | JList "json list"
  | JObj "(string \<times> json) list"

text \<open>
  An exception carries the message template of the source and the arguments handed to
  \<^verbatim>\<open>str.format\<close>.
\<close>

datatype fmt_arg = FStr string | FInt int | FReals "real list" | FJson json

datatype error =
    ConfigurationException string "fmt_arg list"
  | Exception string "fmt_arg list"
  | ConfigurableClassNotFoundException string
  | DynamicClassException string "fmt_arg list"
  | ModuleNotFoundError string
  | KeyError string
  | IndexError
  | ValueError
  | ZeroDivisionError
  | TypeError
  | AttributeError
  | UnboundLocalError string

text \<open>\<^verbatim>\<open>"...{}...".format(a, b)\<close> with string arguments: each \<^verbatim>\<open>{}\<close> takes the next argument
  (the source never gives fewer arguments than placeholders).\<close>

fun format :: "string \<Rightarrow> string list \<Rightarrow> string" where
  "format (c # d # cs) (a # as) =
     (if c = CHR ''{'' \<and> d = CHR ''}'' then a @ format cs as
      else c # format (d # cs) (a # as))"
| "format (c # cs) as = c # format cs as"
| "format [] as = []"

definition bindE :: "error + 'a \<Rightarrow> ('a \<Rightarrow> error + 'b) \<Rightarrow> error + 'b" where
  "bindE m f = (case m of Inl e \<Rightarrow> Inl e | Inr x \<Rightarrow> f x)"

section \<open>Floating-point values\<close>

text \<open>
  The values that the document gives (extents of the volume, thicknesses, positions,
  ratios) are finite floats and are idealised as real numbers: no rounding, no overflow,
  no signed zero. The coordinates and extents of a layer are numpy floats, and numpy does
  not raise where Python's own floats do: a division by zero gives \<^verbatim>\<open>inf\<close>, \<^verbatim>\<open>-inf\<close> or
  \<^verbatim>\<open>nan\<close>, a fractional power of a negative number gives \<^verbatim>\<open>nan\<close>, and these values then
  spread through the arithmetic. \<open>fl\<close> keeps them, with the IEEE 754 rules for them
  (a zero divisor counts as \<open>+0\<close>). \<open>fl_eq\<close> and \<open>fl_le\<close> are the comparisons \<^verbatim>\<open>==\<close> and
  \<^verbatim>\<open><=\<close> of floats, false whenever an argument is \<^verbatim>\<open>nan\<close>; \<open>pow_third\<close> is
  \<^verbatim>\<open>pow(x, 1 / 3)\<close> on a numpy float.
\<close>

datatype fl = Fin real | PInf | NInf | NaN

fun fl_neg :: "fl \<Rightarrow> fl" where
  "fl_neg (Fin a) = Fin (- a)"
| "fl_neg PInf = NInf"
| "fl_neg NInf = PInf"
| "fl_neg NaN = NaN"

fun fl_add :: "fl \<Rightarrow> fl \<Rightarrow> fl" where
  "fl_add (Fin a) (Fin b) = Fin (a + b)"
| "fl_add NaN y = NaN"
| "fl_add x NaN = NaN"
| "fl_add PInf NInf = NaN"
| "fl_add NInf PInf = NaN"
| "fl_add PInf y = PInf"
| "fl_add x PInf = PInf"
| "fl_add NInf y = NInf"
| "fl_add x NInf = NInf"

definition fl_sub :: "fl \<Rightarrow> fl \<Rightarrow> fl" where
  "fl_sub x y = fl_add x (fl_neg y)"

text \<open>\<open>inf_times x\<close> is \<^verbatim>\<open>inf * x\<close>.\<close>

fun inf_times :: "fl \<Rightarrow> fl" where
  "inf_times (Fin b) = (if b = 0 then NaN else if 0 < b then PInf else NInf)"
| "inf_times PInf = PInf"
| "inf_times NInf = NInf"
| "inf_times NaN = NaN"

fun fl_mul :: "fl \<Rightarrow> fl \<Rightarrow> fl" where
  "fl_mul (Fin a) (Fin b) = Fin (a * b)"
| "fl_mul PInf y = inf_times y"
| "fl_mul NInf y = fl_neg (inf_times y)"
| "fl_mul x PInf = inf_times x"
| "fl_mul x NInf = fl_neg (inf_times x)"
| "fl_mul NaN y = NaN"
| "fl_mul x NaN = NaN"

fun fl_div :: "fl \<Rightarrow> fl \<Rightarrow> fl" where
  "fl_div (Fin a) (Fin b) =
     (if b = 0 then (if a = 0 then NaN else if 0 < a then PInf else NInf) else Fin (a / b))"
| "fl_div NaN y = NaN"
| "fl_div x NaN = NaN"
| "fl_div (Fin a) y = Fin 0"
| "fl_div PInf (Fin b) = (if 0 \<le> b then PInf else NInf)"
| "fl_div NInf (Fin b) = (if 0 \<le> b then NInf else PInf)"
| "fl_div x y = NaN"

fun pow_third :: "fl \<Rightarrow> fl" where
  "pow_third (Fin a) = (if a < 0 then NaN else Fin (a powr (1 / 3)))"
| "pow_third PInf = PInf"
| "pow_third NInf = PInf"
| "pow_third NaN = NaN"

definition fl_sum :: "fl list \<Rightarrow> fl" where
  "fl_sum xs = foldr fl_add xs (Fin 0)"

definition fl_prod :: "fl list \<Rightarrow> fl" where
  "fl_prod xs = foldr fl_mul xs (Fin 1)"

definition fl_eq :: "fl \<Rightarrow> fl \<Rightarrow> bool" where
  "fl_eq x y \<longleftrightarrow> x = y \<and> x \<noteq> NaN"



section \<open>Layers and stacks\<close>

text \<open>
  Modelled from the spec: the class \<^verbatim>\<open>Layer\<close> of \<^verbatim>\<open>scaffold/models.py\<close>, which is not
  among the sources. A layer has a name, a 3D origin, 3D dimensions and the flags
  \<open>scaling\<close> and \<open>xz_center\<close>; its thickness is the Y component of its dimensions and
  its volume the product \<open>X * Y * Z\<close> of its dimensions. The origin and the dimensions
  are arrays of floats. The default of \<open>scaling\<close> is not stated anywhere, so the constructor
  takes it as its first argument.
\<close>

record layer =
  name :: string
  origin :: "fl list"
  dimensions :: "fl list"
  scaling :: bool
  xz_center :: bool

definition Layer :: "bool \<Rightarrow> string \<Rightarrow> fl list \<Rightarrow> fl list \<Rightarrow> layer" where
  "Layer sc nm org dims =
     \<lparr>name = nm, origin = org, dimensions = dims, scaling = sc, xz_center = False\<rparr>"

definition thickness :: "layer \<Rightarrow> fl" where
  "thickness l = dimensions l ! 1"

definition volume :: "layer \<Rightarrow> fl" where
  "volume l = fl_mul (fl_mul (dimensions l ! 0) (dimensions l ! 1)) (dimensions l ! 2)"

text \<open>
  A section of the \<^verbatim>\<open>layers\<close> mapping of the document. Every key is optional in
  the source (\<^verbatim>\<open>"thickness" in config\<close>), hence the options; the values have the
  JSON types that section 6 of the specification gives them.
\<close>

record stack_config =
  stack_id :: "int option"
  position_in_stack :: "int option"
  stack_base :: "real list option"

datatype xz_scale_value = XzScalar real | XzList "real list"

record layer_config =
  cfg_thickness :: "real option"
  volume_scale :: "real option"
  scale_from_layers :: "string list option"
  volume_dimension_ratio :: "real list option"
  position :: "real list option"
  stack :: "stack_config option"
  xz_scale :: "xz_scale_value option"
  cfg_xz_center :: "bool option"

text \<open>An entry of \<^verbatim>\<open>self._layer_stacks\<close>: \<^verbatim>\<open>{"layers": {slot: name}, "position": [x, y, z]}\<close>.\<close>

record stack_entry =
  stack_layers :: "(int \<times> string) list"
  stack_position :: "real list option"

record config =
  X :: real
  Z :: real
  layers :: "(string \<times> layer) list"
  layer_map :: "string list"
  layer_stacks :: "(int \<times> stack_entry) list"
  parsed_layers :: "(string \<times> layer_config) list"

definition add_layer :: "layer \<Rightarrow> config \<Rightarrow> config" where
  "add_layer l s =
     s\<lparr>layers := AList.update (name l) l (layers s), layer_map := layer_map s @ [name l]\<rparr>"

subsection \<open>\<^verbatim>\<open>JSONConfig.init_layer\<close>\<close>

definition layer_origin :: "string \<Rightarrow> layer_config \<Rightarrow> error + real list" where
  "layer_origin nm cfg =
     (case position cfg of
        None \<Rightarrow> Inr [0, 0, 0]
      | Some p \<Rightarrow>
          if length p \<noteq> 3
          then Inl (Exception (''Invalid position '{}' given in config '{}'' @ [CHR 0x27])
                      [FReals p, FStr nm])
          else Inr p)"

definition register_in_stack ::
  "string \<Rightarrow> stack_config \<Rightarrow> (int \<times> stack_entry) list \<Rightarrow> error + (int \<times> stack_entry) list"
where
  "register_in_stack nm sc stacks =
     (case stack_id sc of
        None \<Rightarrow> Inl (Exception ''A 'stack_id' attribute is required in '{}.stack'.'' [FStr nm])
      | Some sid \<Rightarrow>
          let st = (case map_of stacks sid of
                      Some st \<Rightarrow> st
                    | None \<Rightarrow> \<lparr>stack_layers = [], stack_position = None\<rparr>)
          in (case position_in_stack sc of
                None \<Rightarrow>
                  Inl (Exception ''A 'position_in_stack' attribute is required in '{}.stack'.''
                         [FStr nm])
              | Some slot \<Rightarrow>
                  let st1 = st\<lparr>stack_layers := AList.update slot nm (stack_layers st)\<rparr>
                  in (case stack_base sc of
                        None \<Rightarrow> Inr (AList.update sid st1 stacks)
                      | Some p \<Rightarrow>
                          (case stack_position st1 of
                             Some q \<Rightarrow>
                               Inl (Exception
                                 (''Duplicate positioning attribute found for stack with id '{}''
                                    @ [CHR 0x27]) [FInt sid])
                           | None \<Rightarrow>
                               Inr (AList.update sid (st1\<lparr>stack_position := Some p\<rparr>) stacks)))))"

definition layer_xz_scale :: "layer_config \<Rightarrow> error + real list" where
  "layer_xz_scale cfg =
     (case xz_scale cfg of
        None \<Rightarrow> Inr [1, 1]
      | Some (XzScalar v) \<Rightarrow> Inr [v, v]
      | Some (XzList vs) \<Rightarrow> if length vs < 2 then Inl IndexError else Inr [vs ! 0, vs ! 1])"

definition init_layer :: "bool \<Rightarrow> string \<Rightarrow> layer_config \<Rightarrow> config \<Rightarrow> error + config" where
  "init_layer sc nm cfg s =
     (if cfg_thickness cfg = None \<and> volume_scale cfg = None
      then Inl (ConfigurationException
                  ''Either a thickness attribute or volume_scale required in {} config.'' [FStr nm])
      else
        let th = (case cfg_thickness cfg of None \<Rightarrow> 0 | Some t \<Rightarrow> t) in
        bindE (layer_origin nm cfg) (\<lambda>org.
        bindE (case stack cfg of
                 None \<Rightarrow> Inr (layer_stacks s)
               | Some sc' \<Rightarrow> register_in_stack nm sc' (layer_stacks s)) (\<lambda>stacks.
        bindE (layer_xz_scale cfg) (\<lambda>xzScale.
          let dims = [X s * xzScale ! 0, th, Z s * xzScale ! 1];
              centred = (cfg_xz_center cfg = Some True);
              org1 = (if centred
                      then org[0 := (X s - dims ! 0) / 2, 2 := (Z s - dims ! 2) / 2]
                      else org);
              l = (Layer sc nm (map Fin org1) (map Fin dims))\<lparr>xz_center := centred\<rparr>
          in Inr (add_layer l (s\<lparr>layer_stacks := stacks\<rparr>))))))"

subsection \<open>\<^verbatim>\<open>JSONConfig.finalize_layers\<close>\<close>

fun reference_volumes :: "(string \<times> layer) list \<Rightarrow> string list \<Rightarrow> error + fl list" where
  "reference_volumes ls [] = Inr []"
| "reference_volumes ls (r # rs) =
     (case map_of ls r of
        None \<Rightarrow> Inl (KeyError r)
      | Some l \<Rightarrow> bindE (reference_volumes ls rs) (\<lambda>vs. Inr (volume l # vs)))"

text \<open>
  The body of the first loop for one layer. The message of the exception for a missing
  \<^verbatim>\<open>scale_from_layers\<close> is formatted with \<^verbatim>\<open>name\<close>, a local variable of
  \<^verbatim>\<open>finalize_layers\<close> that is assigned only by the second loop: reading it here raises
  \<^verbatim>\<open>UnboundLocalError\<close> before the \<^verbatim>\<open>ConfigurationException\<close> is built. The
  arithmetic is numpy's and raises nothing: a zero Y ratio, a zero divisor or a negative
  quotient leave \<^verbatim>\<open>inf\<close> or \<^verbatim>\<open>nan\<close> in the dimensions. Ratios of another length than 3
  fail in \<^verbatim>\<open>np.multiply\<close> (\<^verbatim>\<open>ValueError\<close>) or, below 2, in \<^verbatim>\<open>dimension_ratios[1]\<close>.
\<close>

definition scale_layer ::
  "(string \<times> layer_config) list \<Rightarrow> (string \<times> layer) list \<Rightarrow> layer \<Rightarrow> error + layer"
where
  "scale_layer parsed ls l =
     (case map_of parsed (name l) of
        None \<Rightarrow> Inl (KeyError (name l))
      | Some cfg \<Rightarrow>
          (case volume_scale cfg of
             None \<Rightarrow> Inr l
           | Some vscale \<Rightarrow>
               (case scale_from_layers cfg of
                  None \<Rightarrow> Inl (UnboundLocalError ''name'')
                | Some reference_layers \<Rightarrow>
                    let ratios = (case volume_dimension_ratio cfg of
                                    None \<Rightarrow> [1, 1, 1]
                                  | Some r \<Rightarrow> r)
                    in if length ratios < 2 then Inl IndexError
                       else
                         let dimension_ratios =
                               map (\<lambda>r. fl_div (Fin r) (Fin (ratios ! 1))) ratios
                         in
                         bindE (reference_volumes ls reference_layers) (\<lambda>vols.
                           let volume_reference_layers = fl_sum vols;
                               normalized_size =
                                 pow_third
                                   (fl_div volume_reference_layers
                                      (fl_mul (Fin vscale) (fl_prod dimension_ratios)))
                           in if length dimension_ratios \<noteq> 3 then Inl ValueError
                              else Inr (l\<lparr>dimensions :=
                                          map (\<lambda>r. fl_mul normalized_size r)
                                            dimension_ratios\<rparr>)))))"

text \<open>
  The first loop runs over \<^verbatim>\<open>self.layers.values()\<close>; each layer object is changed in
  place, so a later layer sees the dimensions already given to an earlier one.
\<close>

fun scale_layers ::
  "(string \<times> layer_config) list \<Rightarrow> string list \<Rightarrow> (string \<times> layer) list
     \<Rightarrow> error + (string \<times> layer) list"
where
  "scale_layers parsed [] ls = Inr ls"
| "scale_layers parsed (n # ns) ls =
     (case map_of ls n of
        None \<Rightarrow> Inl (KeyError n)
      | Some l \<Rightarrow>
          bindE (scale_layer parsed ls l) (\<lambda>l'. scale_layers parsed ns (AList.update n l' ls)))"

text \<open>The inner loop of the second part: \<^verbatim>\<open>for (id, name) in sorted(stack["layers"].items())\<close>.\<close>

fun place_layers ::
  "(int \<times> string) list \<Rightarrow> fl \<Rightarrow> (string \<times> layer) list \<Rightarrow> error + (string \<times> layer) list"
where
  "place_layers [] stack_roof ls = Inr ls"
| "place_layers ((i, nm) # rest) stack_roof ls =
     (case map_of ls nm of
        None \<Rightarrow> Inl (KeyError nm)
      | Some l \<Rightarrow>
          if length (origin l) < 2 then Inl IndexError
          else place_layers rest (fl_add stack_roof (thickness l))
                 (AList.update nm (l\<lparr>origin := (origin l)[1 := stack_roof]\<rparr>) ls))"

definition stack_base_position :: "stack_entry \<Rightarrow> real list" where
  "stack_base_position st = (case stack_position st of None \<Rightarrow> [0, 0, 0] | Some p \<Rightarrow> p)"

definition sorted_slots :: "stack_entry \<Rightarrow> (int \<times> string) list" where
  "sorted_slots st = sort_key fst (stack_layers st)"

fun place_stacks ::
  "(int \<times> stack_entry) list \<Rightarrow> (string \<times> layer) list \<Rightarrow> error + (string \<times> layer) list"
where
  "place_stacks [] ls = Inr ls"
| "place_stacks ((sid, st) # rest) ls =
     (if length (stack_base_position st) < 2 then Inl IndexError
      else bindE (place_layers (sorted_slots st) (Fin (stack_base_position st ! 1)) ls)
             (\<lambda>ls'. place_stacks rest ls'))"

definition finalize_layers :: "config \<Rightarrow> error + config" where
  "finalize_layers s =
     bindE (scale_layers (parsed_layers s) (map fst (layers s)) (layers s)) (\<lambda>ls1.
     bindE (place_stacks (layer_stacks s) ls1) (\<lambda>ls2.
       Inr (s\<lparr>layers := ls2,
              layer_stacks :=
                map (\<lambda>(sid, st). (sid, st\<lparr>stack_position := Some (stack_base_position st)\<rparr>))
                  (layer_stacks s)\<rparr>)))"

section \<open>The generic section loader\<close>

text \<open>
  \<^verbatim>\<open>load_attr\<close> drives callbacks that change the configuration object in place and
  may raise. A callback is a function from the state to the exception raised, if any, and
  the state it leaves behind. The finalizer is a callable that the loader calls either with
  no argument (\<open>None\<close>) or with the name and the section of an entry.
\<close>

type_synonym 's action = "'s \<Rightarrow> error option \<times> 's"

definition raising :: "('s \<Rightarrow> error + 's) \<Rightarrow> 's action" where
  "raising f s = (case f s of Inl e \<Rightarrow> (Some e, s) | Inr s' \<Rightarrow> (None, s'))"

fun for_each_item :: "(string \<Rightarrow> 'sec \<Rightarrow> 's action) \<Rightarrow> (string \<times> 'sec) list \<Rightarrow> 's action" where
  "for_each_item f [] s = (None, s)"
| "for_each_item f ((def_name, def_config) # rest) s =
     (case f def_name def_config s of
        (Some e, s') \<Rightarrow> (Some e, s')
      | (None, s') \<Rightarrow> for_each_item f rest s')"

definition load_attr ::
  "(string \<times> (string \<times> 'sec) list) list \<Rightarrow> string \<Rightarrow> (string \<Rightarrow> 'sec \<Rightarrow> 's action)
     \<Rightarrow> ((string \<times> 'sec) option \<Rightarrow> 's action) option \<Rightarrow> bool \<Rightarrow> string option \<Rightarrow> 's action"
where
  "load_attr config attr init final single node_name s =
     (case map_of config attr of
        None \<Rightarrow>
          (Some (Exception ''Missing '{}' attribute in {}.''
                   [FStr attr,
                    FStr (case node_name of
                            None \<Rightarrow> ''configuration''
                          | Some n \<Rightarrow> if n = [] then ''configuration'' else n)]), s)
      | Some entries \<Rightarrow>
          (case for_each_item init entries s of
             (Some e, s') \<Rightarrow> (Some e, s')
           | (None, s') \<Rightarrow>
               (case final of
                  None \<Rightarrow> (None, s')
                | Some fin \<Rightarrow>
                    if single then fin None s'
                    else for_each_item (\<lambda>def_name def_config. fin (Some (def_name, def_config)))
                           entries s')))"

text \<open>
  The part of \<^verbatim>\<open>JSONConfig.__init__\<close> that loads the layers, from the state that
  \<^verbatim>\<open>ScaffoldConfig.__init__\<close> and \<^verbatim>\<open>load_general\<close> leave: no layer, no stack, and the
  volume of the document. A callback that raises aborts the load, and the state it leaves
  is never used.
\<close>

definition initial_config :: "real \<Rightarrow> real \<Rightarrow> (string \<times> layer_config) list \<Rightarrow> config" where
  "initial_config x z entries =
     \<lparr>X = x, Z = z, layers = [], layer_map = [], layer_stacks = [], parsed_layers = entries\<rparr>"

definition load_layers :: "bool \<Rightarrow> real \<Rightarrow> real \<Rightarrow> (string \<times> layer_config) list \<Rightarrow> error + config" where
  "load_layers sc x z entries =
     (case load_attr [(''layers'', entries)] ''layers''
             (\<lambda>def_name def_config. raising (init_layer sc def_name def_config))
             (Some (\<lambda>a. raising finalize_layers)) True None (initial_config x z entries) of
        (Some e, s) \<Rightarrow> Inl e
      | (None, s) \<Rightarrow> Inr s)"

definition no_layer_config :: layer_config where
  "no_layer_config =
     \<lparr>cfg_thickness = None, volume_scale = None, scale_from_layers = None,
      volume_dimension_ratio = None, position = None, stack = None, xz_scale = None,
      cfg_xz_center = None\<rparr>"

section \<open>Recording the calls of the section loader\<close>







section \<open>\<^verbatim>\<open>ScaffoldConfig.resize\<close>\<close>

text \<open>
  \<^verbatim>\<open>resize\<close> changes the configuration in place. Dividing by a volume extent of zero
  raises \<^verbatim>\<open>ZeroDivisionError\<close>; the assignments made before that remain, so the model
  returns the exception together with the state left behind.
\<close>

definition resize_layer :: "real \<Rightarrow> real \<Rightarrow> real \<Rightarrow> real \<Rightarrow> layer \<Rightarrow> layer" where
  "resize_layer scaling_x scaling_z x z l =
     (let l1 = (if scaling l
                then let d0 = (dimensions l)[0 := fl_mul (dimensions l ! 0) (Fin scaling_x)];
                         d2 = d0[2 := fl_mul (d0 ! 2) (Fin scaling_z)]
                     in l\<lparr>dimensions := d2\<rparr>
                else l)
      in if xz_center l1
         then let o0 = (origin l1)[0 := fl_sub (Fin (x / 2)) (fl_div (dimensions l1 ! 0) (Fin 2))];
                  o2 = o0[2 := fl_sub (Fin (z / 2)) (fl_div (dimensions l1 ! 2) (Fin 2))]
              in l1\<lparr>origin := o2\<rparr>
         else l1)"

definition resize :: "real option \<Rightarrow> real option \<Rightarrow> config action" where
  "resize Xn Zn s =
     (if Xn \<noteq> None \<and> X s = 0 then (Some ZeroDivisionError, s)
      else
        let scaling_x = (case Xn of None \<Rightarrow> 1 | Some x \<Rightarrow> x / X s);
            s1 = (case Xn of None \<Rightarrow> s | Some x \<Rightarrow> s\<lparr>X := x\<rparr>)
        in if Zn \<noteq> None \<and> Z s1 = 0 then (Some ZeroDivisionError, s1)
           else
             let scaling_z = (case Zn of None \<Rightarrow> 1 | Some z \<Rightarrow> z / Z s1);
                 s2 = (case Zn of None \<Rightarrow> s1 | Some z \<Rightarrow> s1\<lparr>Z := z\<rparr>)
             in (None, s2\<lparr>layers :=
                         map (\<lambda>(n, l). (n, resize_layer scaling_x scaling_z (X s2) (Z s2) l))
                           (layers s2)\<rparr>))"

section \<open>Helpers, dynamic classes and the placement loader\<close>

text \<open>
  Modelled from the spec: the helpers \<^verbatim>\<open>assert_attr\<close>, \<^verbatim>\<open>assert_float\<close>,
  \<^verbatim>\<open>assert_attr_float\<close> and \<^verbatim>\<open>assert_strictly_one\<close> of \<^verbatim>\<open>scaffold/helpers.py\<close>, which is
  not among the sources. A required key that is absent, a value that does not cast to a
  float, and a group of mutually exclusive keys of which not exactly one is present each
  fail with a configuration error that carries the node path; the wording of the messages
  is not known. Python's parser of floats from strings is the parameter \<open>parse\<close>.
\<close>

definition assert_attr :: "(string \<times> json) list \<Rightarrow> string \<Rightarrow> string \<Rightarrow> error + json" where
  "assert_attr section attr section_name =
     (case map_of section attr of
        None \<Rightarrow> Inl (ConfigurationException ''Required attribute '{}' missing in '{}'.''
                      [FStr attr, FStr section_name])
      | Some v \<Rightarrow> Inr v)"

definition float_of_json :: "(string \<Rightarrow> real option) \<Rightarrow> json \<Rightarrow> real option" where
  "float_of_json parse v =
     (case v of
        JInt i \<Rightarrow> Some (real_of_int i)
      | JFloat r \<Rightarrow> Some r
      | JBool b \<Rightarrow> Some (if b then 1 else 0)
      | JStr s \<Rightarrow> parse s
      | JNull \<Rightarrow> None
      | JList vs \<Rightarrow> None
      | JObj kvs \<Rightarrow> None)"

definition assert_float :: "(string \<Rightarrow> real option) \<Rightarrow> json \<Rightarrow> string \<Rightarrow> error + real" where
  "assert_float parse val section_name =
     (case float_of_json parse val of
        None \<Rightarrow> Inl (ConfigurationException ''Invalid float '{}' given for '{}'.''
                      [FJson val, FStr section_name])
      | Some r \<Rightarrow> Inr r)"

definition assert_attr_float ::
  "(string \<Rightarrow> real option) \<Rightarrow> (string \<times> json) list \<Rightarrow> string \<Rightarrow> string \<Rightarrow> error + real"
where
  "assert_attr_float parse section attr section_name =
     bindE (assert_attr section attr section_name) (\<lambda>v.
       assert_float parse v (format ''{}.{}'' [section_name, attr]))"

definition assert_strictly_one ::
  "(string \<times> json) list \<Rightarrow> string list \<Rightarrow> string \<Rightarrow> error + string \<times> json"
where
  "assert_strictly_one section attrs section_name =
     (case filter (\<lambda>attr. map_of section attr \<noteq> None) attrs of
        [attr] \<Rightarrow> Inr (attr, the (map_of section attr))
      | found \<Rightarrow> Inl (ConfigurationException
                       ''Strictly one of the following attributes is expected in {}: {}.''
                       (FStr section_name # map FStr attrs)))"

subsection \<open>\<^verbatim>\<open>ScaffoldConfig.load_configurable_class\<close> and \<^verbatim>\<open>fill_configurable_class\<close>\<close>

text \<open>
  The classes that \<^verbatim>\<open>__import__\<close> can reach are a parameter: a dictionary from module
  names to the classes of the module. Of a class the loader uses the classes it derives
  from, its constructor (from the keyword parameters to the \<^verbatim>\<open>__dict__\<close> of the new
  instance) and, for a placement strategy, the answer of \<^verbatim>\<open>is_entities()\<close>.
\<close>

record pyclass =
  bases :: "string list"
  construct :: "(string \<times> json) list \<Rightarrow> (string \<times> json) list"
  is_entities :: bool

record pyobject =
  class_of :: pyclass
  dict :: "(string \<times> json) list"

datatype class_ref = ClassName string | ClassObject pyclass

definition class_name_of :: "string \<Rightarrow> string" where
  "class_name_of s = rev (takeWhile (\<lambda>c. c \<noteq> CHR ''.'') (rev s))"

definition module_name_of :: "string \<Rightarrow> string" where
  "module_name_of s = rev (drop 1 (dropWhile (\<lambda>c. c \<noteq> CHR ''.'') (rev s)))"

definition load_configurable_class ::
  "(string \<times> (string \<times> pyclass) list) list \<Rightarrow> string \<Rightarrow> class_ref \<Rightarrow> string
     \<Rightarrow> (string \<times> json) list \<Rightarrow> error + pyobject"
where
  "load_configurable_class modules nm configured_class_name parent_class parameters =
     bindE (case configured_class_name of
              ClassObject c \<Rightarrow> Inr \<lparr>class_of = c, dict = construct c parameters\<rparr>
            | ClassName s \<Rightarrow>
                if module_name_of s = [] then Inl ValueError
                else (case map_of modules (module_name_of s) of
                        None \<Rightarrow> Inl (ModuleNotFoundError (module_name_of s))
                      | Some module_ref \<Rightarrow>
                          (case map_of module_ref (class_name_of s) of
                             None \<Rightarrow> Inl (ConfigurableClassNotFoundException (''Class not found:'' @ s))
                           | Some c \<Rightarrow>
                               if parent_class \<notin> set (bases c)
                               then Inl (DynamicClassException
                                           ''Configurable class '{}.{}' must derive from {}''
                                           [FStr (module_name_of s), FStr (class_name_of s),
                                            FStr parent_class])
                               else Inr \<lparr>class_of = c, dict = construct c parameters\<rparr>)))
       (\<lambda>inst. Inr (inst\<lparr>dict := AList.update ''name'' (JStr nm) (dict inst)\<rparr>))"

fun fill_configurable_class ::
  "pyobject \<Rightarrow> (string \<times> json) list \<Rightarrow> string list \<Rightarrow> pyobject" where
  "fill_configurable_class obj [] excluded = obj"
| "fill_configurable_class obj ((nm, prop) # conf) excluded =
     fill_configurable_class
       (if nm \<notin> set excluded then obj\<lparr>dict := AList.update nm prop (dict obj)\<rparr> else obj)
       conf excluded"

definition setattr :: "string \<Rightarrow> json \<Rightarrow> pyobject \<Rightarrow> pyobject" where
  "setattr k v obj = obj\<lparr>dict := AList.update k v (dict obj)\<rparr>"

subsection \<open>\<^verbatim>\<open>JSONConfig.init_placement\<close>\<close>

definition density_attrs :: "string list" where
  "density_attrs =
     [''density'', ''planar_density'', ''placement_count_ratio'', ''density_ratio'', ''count'']"

text \<open>The first part of the function: the instance, its layer and its soma radius.\<close>

definition placement_instance ::
  "(string \<times> (string \<times> pyclass) list) list \<Rightarrow> (string \<Rightarrow> real option) \<Rightarrow> (string \<times> json) list
     \<Rightarrow> string \<Rightarrow> error + pyobject"
where
  "placement_instance modules parse section cell_type_name =
     (let nm = cell_type_name @ ''_placement'';
          node_name = format ''cell_types.{}.placement'' [cell_type_name]
      in
      bindE (assert_attr section ''class'' node_name) (\<lambda>placement_class.
      bindE (case placement_class of
               JStr cls \<Rightarrow>
                 (case load_configurable_class modules nm (ClassName cls) ''PlacementStrategy'' [] of
                    Inl (ConfigurableClassNotFoundException m) \<Rightarrow>
                      Inl (Exception (''Couldn't find class '{}' specified in '{}'' @ [CHR 0x27])
                             [FJson placement_class, FStr node_name])
                  | Inl e \<Rightarrow> Inl e
                  | Inr p \<Rightarrow> Inr p)
             | other \<Rightarrow> Inl AttributeError) (\<lambda>placement.
      bindE (assert_attr section ''layer'' node_name) (\<lambda>layer_name.
      let placement1 = setattr ''layer'' layer_name placement in
      if \<not> is_entities (class_of placement1)
      then bindE (assert_attr_float parse section ''soma_radius'' node_name) (\<lambda>r.
             Inr (setattr ''radius'' (JFloat r) (setattr ''soma_radius'' (JFloat r) placement1)))
      else Inr placement1))))"

text \<open>The second part: the density configuration and the copy of the other keys.\<close>

definition placement_density ::
  "(string \<Rightarrow> real option) \<Rightarrow> (string \<times> json) list \<Rightarrow> string \<Rightarrow> pyobject \<Rightarrow> error + pyobject"
where
  "placement_density parse section node_name placement =
     bindE (assert_strictly_one section density_attrs node_name) (\<lambda>(density_attr, raw_value).
     bindE (assert_float parse raw_value (format ''{}.{}'' [node_name, density_attr]))
       (\<lambda>density_value.
     let placement1 = setattr density_attr (JFloat density_value) placement in
     bindE (if density_attr \<in> set [''placement_count_ratio'', ''density_ratio'']
            then bindE (assert_attr section ''placement_relative_to'' node_name) (\<lambda>relation.
                   Inr (setattr ''placement_relative_to'' relation placement1))
            else Inr placement1) (\<lambda>placement2.
       Inr (fill_configurable_class placement2 section
              [''class'', ''layer'', ''soma_radius'', ''density'', ''planar_density'',
               ''placement_count_ratio'', ''density_ratio'']))))"

definition init_placement ::
  "(string \<times> (string \<times> pyclass) list) list \<Rightarrow> (string \<Rightarrow> real option) \<Rightarrow> (string \<times> json) list
     \<Rightarrow> string \<Rightarrow> (string \<times> pyobject) list \<Rightarrow> error + pyobject \<times> (string \<times> pyobject) list"
where
  "init_placement modules parse section cell_type_name placement_strategies =
     bindE (placement_instance modules parse section cell_type_name) (\<lambda>placement0.
     bindE (placement_density parse section
              (format ''cell_types.{}.placement'' [cell_type_name]) placement0) (\<lambda>placement.
       Inr (placement,
            AList.update (cell_type_name @ ''_placement'') placement placement_strategies)))"


text \<open>A small class registry and two placement sections, used as concrete inputs below.\<close>

definition demo_class :: pyclass where
  "demo_class = \<lparr>bases = [''PlacementStrategy''], construct = (\<lambda>ps. []), is_entities = False\<rparr>"

definition demo_modules :: "(string \<times> (string \<times> pyclass) list) list" where
  "demo_modules =
     [(''scaffold.placement'',
       [(''ParticlePlacement'', demo_class)])]"

definition demo_parse :: "string \<Rightarrow> real option" where
  "demo_parse s = (if s = ''10'' then Some 10 else None)"

definition demo_section :: "(string \<times> json) list" where
  "demo_section =
     [(''class'', JStr ''scaffold.placement.ParticlePlacement''),
      (''layer'', JStr ''granular_layer''),
      (''soma_radius'', JFloat 2.5),
      (''count'', JStr ''10'')]"

definition demo_density_section :: "(string \<times> json) list" where
  "demo_density_section =
     [(''class'', JStr ''scaffold.placement.ParticlePlacement''),
      (''layer'', JStr ''granular_layer''),
      (''soma_radius'', JFloat 2.5),
      (''density'', JInt 3)]"

definition demo_instance :: pyobject where
  "demo_instance =
     \<lparr>class_of = demo_class,
      dict = [(''name'', JStr ''granule_placement''), (''layer'', JStr ''granular_layer''),
              (''soma_radius'', JFloat 2.5), (''radius'', JFloat 2.5)]\<rparr>"

section \<open>\<^verbatim>\<open>JSONConfig.finalize_connection\<close>\<close>

text \<open>
  \<open>str_nat\<close> is Python's \<^verbatim>\<open>str\<close> on a non-negative integer. A connection keeps the raw
  references stored by \<^verbatim>\<open>init_connection\<close> and the lists resolved here; the cell type
  objects are of an arbitrary type. The source has one loop for each direction; they
  differ in the message and in the default compartments only, which are arguments of
  \<open>resolve_cell_types\<close>.
\<close>

definition digit_char :: "nat \<Rightarrow> char" where
  "digit_char d = char_of (48 + d)"

function str_nat :: "nat \<Rightarrow> string" where
  "str_nat n = (if n < 10 then [digit_char n] else str_nat (n div 10) @ [digit_char (n mod 10)])"
  by pat_completeness auto
termination
  by (relation "measure id") auto

declare str_nat.simps [simp del]

record 'ct connection =
  raw_from_cell_types :: "(string \<times> json) list list"
  raw_to_cell_types :: "(string \<times> json) list list"
  from_cell_types :: "'ct list"
  to_cell_types :: "'ct list"
  from_cell_compartments :: "json list"
  to_cell_compartments :: "json list"

fun resolve_cell_types ::
  "(string \<times> 'ct) list \<Rightarrow> string \<Rightarrow> string \<Rightarrow> json \<Rightarrow> nat \<Rightarrow> (string \<times> json) list list
     \<Rightarrow> error + 'ct list \<times> json list"
where
  "resolve_cell_types cell_types node_name unknown default_compartments i [] = Inr ([], [])"
| "resolve_cell_types cell_types node_name unknown default_compartments i (connected_cell # rest) =
     bindE (assert_attr connected_cell ''type'' (node_name @ format ''.{}'' [str_nat i])) (\<lambda>type.
     bindE (case type of
              JStr t \<Rightarrow>
                (case map_of cell_types t of
                   None \<Rightarrow> Inl (Exception unknown [FJson type, FStr node_name])
                 | Some cell_type \<Rightarrow> Inr cell_type)
            | JList vs \<Rightarrow> Inl TypeError
            | JObj kvs \<Rightarrow> Inl TypeError
            | other \<Rightarrow> Inl (Exception unknown [FJson type, FStr node_name])) (\<lambda>cell_type.
     bindE (resolve_cell_types cell_types node_name unknown default_compartments (i + 1) rest)
       (\<lambda>(types, compartments).
          Inr (cell_type # types,
               (case map_of connected_cell ''compartments'' of
                  Some c \<Rightarrow> c
                | None \<Rightarrow> default_compartments) # compartments))))"

definition finalize_connection ::
  "(string \<times> 'ct) list \<Rightarrow> (string \<times> 'ct connection) list \<Rightarrow> string
     \<Rightarrow> error + (string \<times> 'ct connection) list"
where
  "finalize_connection cell_types connection_types connection_name =
     (let node_name = ''connection_types.{}'' in
      case map_of connection_types connection_name of
        None \<Rightarrow> Inl (KeyError connection_name)
      | Some connection \<Rightarrow>
          bindE (resolve_cell_types cell_types node_name
                   (''Unknown cell type '{}' in '{}.from_cell_types'' @ [CHR 0x27])
                   (JList [JStr ''axon'']) 0 (raw_from_cell_types connection))
            (\<lambda>(from_types, from_compartments).
          bindE (resolve_cell_types cell_types node_name
                   (''Unknown cell type '{}' in '{}.to_cell_types'' @ [CHR 0x27])
                   (JList [JStr ''dendrites'']) 0 (raw_to_cell_types connection))
            (\<lambda>(to_types, to_compartments).
             Inr (AList.update connection_name
                    (connection\<lparr>from_cell_types := from_types, to_cell_types := to_types,
                       from_cell_compartments := from_compartments,
                       to_cell_compartments := to_compartments\<rparr>)
                    connection_types))))"

definition demo_connection :: "nat connection" where
  "demo_connection =
     \<lparr>raw_from_cell_types = [ [(''type'', JStr ''ghost_cell'')] ],
      raw_to_cell_types = [ [(''type'', JStr ''golgi_cell'')] ],
      from_cell_types = [], to_cell_types = [],
      from_cell_compartments = [], to_cell_compartments = []\<rparr>"

section \<open>Notions used to state the results about layers\<close>

text \<open>
  \<open>xz_unchanged\<close> compares the X and Z components of the origins of two layers;
  \<open>move_base\<close> replaces the X and Z components of the explicit base position of a stack.
\<close>

definition xz_unchanged :: "layer \<Rightarrow> layer \<Rightarrow> bool" where
  "xz_unchanged l l' \<longleftrightarrow> origin l' ! 0 = origin l ! 0 \<and> origin l' ! 2 = origin l ! 2"

definition move_base ::
  "(int \<Rightarrow> real) \<Rightarrow> (int \<Rightarrow> real) \<Rightarrow> int \<times> stack_entry \<Rightarrow> int \<times> stack_entry" where
  "move_base fx fz = (\<lambda>(sid, st).
     (sid, st\<lparr>stack_position := map_option (\<lambda>p. p[0 := fx sid, 2 := fz sid]) (stack_position st)\<rparr>))"

text \<open>
  \<open>init_layers\<close> is the first loop of \<^const>\<open>load_attr\<close> for the layers. \<open>declares\<close> and
  \<open>declares_base\<close> read the stack block of a layer section; \<open>slot_of\<close> and \<open>base_of\<close>
  read the registered stacks; \<open>stack_names\<close> lists the names registered in all stacks.
\<close>

definition init_layers :: "bool \<Rightarrow> (string \<times> layer_config) list \<Rightarrow> config action" where
  "init_layers sc entries = for_each_item (\<lambda>n c. raising (init_layer sc n c)) entries"

definition declares :: "layer_config \<Rightarrow> int \<Rightarrow> int \<Rightarrow> bool" where
  "declares c sid slot =
     (case stack c of
        None \<Rightarrow> False
      | Some sc \<Rightarrow> stack_id sc = Some sid \<and> position_in_stack sc = Some slot)"

definition declares_base :: "layer_config \<Rightarrow> int \<Rightarrow> bool" where
  "declares_base c sid =
     (case stack c of
        None \<Rightarrow> False
      | Some sc \<Rightarrow> stack_id sc = Some sid \<and> stack_base sc \<noteq> None)"

definition slot_of :: "(int \<times> stack_entry) list \<Rightarrow> int \<Rightarrow> int \<Rightarrow> string option" where
  "slot_of stacks sid slot =
     (case map_of stacks sid of None \<Rightarrow> None | Some st \<Rightarrow> map_of (stack_layers st) slot)"

definition base_of :: "(int \<times> stack_entry) list \<Rightarrow> int \<Rightarrow> real list option" where
  "base_of stacks sid =
     (case map_of stacks sid of None \<Rightarrow> None | Some st \<Rightarrow> stack_position st)"

definition stack_names :: "(int \<times> stack_entry) list \<Rightarrow> string list" where
  "stack_names stacks = concat (map (\<lambda>(sid, st). map snd (stack_layers st)) stacks)"

text \<open>
  A document with two layers in stack 1: \<^verbatim>\<open>granular\<close> at slot 0, which also gives the
  stack its base position, and \<^verbatim>\<open>purkinje\<close> at slot 1.
\<close>

definition demo_entries :: "(string \<times> layer_config) list" where
  "demo_entries =
     [(''granular'',
       no_layer_config\<lparr>cfg_thickness := Some 50,
         stack := Some \<lparr>stack_id = Some 1, position_in_stack = Some 0,
                        stack_base = Some [10, 5, 20]\<rparr>\<rparr>),
      (''purkinje'',
       no_layer_config\<lparr>cfg_thickness := Some 30, position := Some [7, 8, 9],
         stack := Some \<lparr>stack_id = Some 1, position_in_stack = Some 1, stack_base = None\<rparr>\<rparr>)]"

text \<open>The stack entry that a layer joins, and what joining does to it.\<close>

definition joined_stack :: "(int \<times> stack_entry) list \<Rightarrow> int \<Rightarrow> stack_entry" where
  "joined_stack stacks sid =
     (case map_of stacks sid of
        Some st \<Rightarrow> st
      | None \<Rightarrow> \<lparr>stack_layers = [], stack_position = None\<rparr>)"

definition put_layer :: "int \<Rightarrow> string \<Rightarrow> real list option \<Rightarrow> stack_entry \<Rightarrow> stack_entry" where
  "put_layer slot nm base st =
     (let st1 = st\<lparr>stack_layers := AList.update slot nm (stack_layers st)\<rparr>
      in case base of None \<Rightarrow> st1 | Some p \<Rightarrow> st1\<lparr>stack_position := Some p\<rparr>)"


definition origin_y :: "config \<Rightarrow> string \<Rightarrow> fl" where
  "origin_y s n = origin (the (map_of (layers s) n)) ! 1"

definition layer_thickness :: "config \<Rightarrow> string \<Rightarrow> fl" where
  "layer_thickness s n = thickness (the (map_of (layers s) n))"

definition layer_top :: "config \<Rightarrow> string \<Rightarrow> fl" where
  "layer_top s n = fl_add (origin_y s n) (layer_thickness s n)"

text \<open>
  The configurations that the documents used below produce: \<open>demo_inited\<close> after the
  \<^verbatim>\<open>init\<close> calls for \<open>demo_entries\<close> and \<open>demo_final\<close> after finalization; a document whose
  first layer has a negative thickness; and a document whose two layers declare the same
  slot.
\<close>

definition layer_of :: "string \<Rightarrow> real list \<Rightarrow> real list \<Rightarrow> string \<times> layer" where
  "layer_of nm org dims =
     (nm, \<lparr>name = nm, origin = map Fin org, dimensions = map Fin dims, scaling = True,
           xz_center = False\<rparr>)"

definition demo_final :: config where
  "demo_final =
     \<lparr>X = 200, Z = 200,
      layers = [layer_of ''granular'' [0, 5, 0] [200, 50, 200],
                layer_of ''purkinje'' [7, 55, 9] [200, 30, 200]],
      layer_map = [''granular'', ''purkinje''],
      layer_stacks =
        [(1, \<lparr>stack_layers = [(0, ''granular''), (1, ''purkinje'')],
              stack_position = Some [10, 5, 20]\<rparr>)],
      parsed_layers = demo_entries\<rparr>"

definition in_stack :: "int \<Rightarrow> int \<Rightarrow> real list option \<Rightarrow> stack_config option" where
  "in_stack sid slot base =
     Some \<lparr>stack_id = Some sid, position_in_stack = Some slot, stack_base = base\<rparr>"


definition clash_entries :: "(string \<times> layer_config) list" where
  "clash_entries =
     [(''first'', no_layer_config\<lparr>cfg_thickness := Some 10, stack := in_stack 1 0 None\<rparr>),
      (''second'', no_layer_config\<lparr>cfg_thickness := Some 20, stack := in_stack 1 0 None\<rparr>)]"

definition demo_stack :: stack_entry where
  "demo_stack =
     \<lparr>stack_layers = [(0, ''granular''), (1, ''purkinje'')], stack_position = Some [10, 5, 20]\<rparr>"

definition demo_inited :: config where
  "demo_inited =
     \<lparr>X = 200, Z = 200,
      layers = [layer_of ''granular'' [0, 0, 0] [200, 50, 200],
                layer_of ''purkinje'' [7, 8, 9] [200, 30, 200]],
      layer_map = [''granular'', ''purkinje''],
      layer_stacks = [(1, demo_stack)],
      parsed_layers = demo_entries\<rparr>"



definition clash_final :: config where
  "clash_final =
     \<lparr>X = 200, Z = 200,
      layers = [layer_of ''first'' [0, 0, 0] [200, 10, 200],
                layer_of ''second'' [0, 0, 0] [200, 20, 200]],
      layer_map = [''first'', ''second''],
      layer_stacks = [(1, \<lparr>stack_layers = [(0, ''second'')], stack_position = Some [0, 0, 0]\<rparr>)],
      parsed_layers = clash_entries\<rparr>"





text \<open>
  A document in a volume of 2 by 2: \<^verbatim>\<open>granular\<close> of thickness 4 (volume 16) and
  \<^verbatim>\<open>molecular\<close>, scaled to half the volume of \<^verbatim>\<open>granular\<close> with equal ratios.
\<close>

definition scaled_entries :: "(string \<times> layer_config) list" where
  "scaled_entries =
     [(''granular'', no_layer_config\<lparr>cfg_thickness := Some 4\<rparr>),
      (''molecular'',
       no_layer_config\<lparr>volume_scale := Some 2, scale_from_layers := Some [''granular''],
         volume_dimension_ratio := Some [1, 1, 1]\<rparr>)]"


definition scaled_final :: config where
  "scaled_final =
     \<lparr>X = 2, Z = 2,
      layers = [layer_of ''granular'' [0, 0, 0] [2, 4, 2],
                layer_of ''molecular'' [0, 0, 0] [2, 2, 2]],
      layer_map = [''granular'', ''molecular''],
      layer_stacks = [],
      parsed_layers = scaled_entries\<rparr>"


definition nan_layer :: "string \<Rightarrow> fl list \<Rightarrow> string \<times> layer" where
  "nan_layer nm org =
     (nm, \<lparr>name = nm, origin = org, dimensions = [NaN, NaN, NaN], scaling = True,
           xz_center = False\<rparr>)"


definition hollow_entries :: "(string \<times> layer_config) list" where
  "hollow_entries =
     [(''granular'', no_layer_config\<lparr>cfg_thickness := Some 4\<rparr>),
      (''molecular'',
       no_layer_config\<lparr>volume_scale := Some (- 2), scale_from_layers := Some [''granular''],
         stack := in_stack 1 0 None\<rparr>),
      (''top'', no_layer_config\<lparr>cfg_thickness := Some 5, stack := in_stack 1 1 None\<rparr>)]"

definition hollow_stack :: stack_entry where
  "hollow_stack =
     \<lparr>stack_layers = [(0, ''molecular''), (1, ''top'')], stack_position = Some [0, 0, 0]\<rparr>"

definition hollow_final :: config where
  "hollow_final =
     \<lparr>X = 2, Z = 2,
      layers = [layer_of ''granular'' [0, 0, 0] [2, 4, 2],
                nan_layer ''molecular'' [Fin 0, Fin 0, Fin 0],
                (''top'', \<lparr>name = ''top'', origin = [Fin 0, NaN, Fin 0],
                          dimensions = [Fin 2, Fin 5, Fin 2], scaling = True,
                          xz_center = False\<rparr>)],
      layer_map = [''granular'', ''molecular'', ''top''],
      layer_stacks = [(1, hollow_stack)],
      parsed_layers = hollow_entries\<rparr>"

text \<open>
  A document with a forward reference: \<^verbatim>\<open>molecular\<close> is scaled from \<^verbatim>\<open>purkinje\<close>, which is
  declared later and is itself scaled from \<^verbatim>\<open>granular\<close>.
\<close>

definition forward_entries :: "(string \<times> layer_config) list" where
  "forward_entries =
     [(''molecular'',
       no_layer_config\<lparr>volume_scale := Some 2, scale_from_layers := Some [''purkinje'']\<rparr>),
      (''granular'', no_layer_config\<lparr>cfg_thickness := Some 4\<rparr>),
      (''purkinje'',
       no_layer_config\<lparr>volume_scale := Some 2, scale_from_layers := Some [''granular'']\<rparr>)]"

definition forward_final :: config where
  "forward_final =
     \<lparr>X = 2, Z = 2,
      layers = [layer_of ''molecular'' [0, 0, 0] [0, 0, 0],
                layer_of ''granular'' [0, 0, 0] [2, 4, 2],
                layer_of ''purkinje'' [0, 0, 0] [2, 2, 2]],
      layer_map = [''molecular'', ''granular'', ''purkinje''],
      layer_stacks = [],
      parsed_layers = forward_entries\<rparr>"

section \<open>Results about layer finalization\<close>

text \<open>
  C8: a layer that declares \<^verbatim>\<open>volume_scale\<close> without \<^verbatim>\<open>scale_from_layers\<close> should fail
  the load with a configuration error that reports the layer. The load of the document
  \<^verbatim>\<open>{"granular": {"volume_scale": 2.0}}\<close> fails in \<^verbatim>\<open>finalize_layers\<close> with an
  \<^verbatim>\<open>UnboundLocalError\<close> for the variable \<^verbatim>\<open>name\<close> instead.
\<close>

theorem missing_scale_from_layers_unbound_name:
  "load_layers sc 200 200 [(''granular'', no_layer_config\<lparr>volume_scale := Some 2\<rparr>)]
     = Inl (UnboundLocalError ''name'')"
  by (simp add: load_layers_def load_attr_def raising_def init_layer_def initial_config_def
      no_layer_config_def layer_origin_def layer_xz_scale_def bindE_def add_layer_def Layer_def
      finalize_layers_def scale_layer_def)

section \<open>Results about the section loader\<close>




section \<open>Results about resizing\<close>

lemma fl_mul_one: "fl_mul d (Fin 1) = d"
  by (cases d) simp_all

lemma resize_layer_again:
  "resize_layer 1 1 x z (resize_layer sx sz x z l) = resize_layer sx sz x z l"
  by (simp add: resize_layer_def Let_def fl_mul_one list_update_swap [of 2 0])

lemma resize_layers_again:
  "(\<lambda>(n, l). (n, resize_layer 1 1 x z l)) \<circ> (\<lambda>(n, l). (n, resize_layer sx sz x z l))
     = (\<lambda>(n, l). (n, resize_layer sx sz x z l))"
  by (auto simp: fun_eq_iff resize_layer_again)

lemma resize_state_unchanged_on_error:
  "resize Xn Zn s = (Some e, s') \<Longrightarrow> layers s' = layers s"
  by (auto simp: resize_def Let_def split: if_splits option.splits)


lemma resize_again_succeeds:
  "Xn \<noteq> Some 0 \<Longrightarrow> Zn \<noteq> Some 0 \<Longrightarrow> resize Xn Zn s = (None, s') \<Longrightarrow>
     resize Xn Zn s' = (None, s')"
  by (cases Xn; cases Zn)
    (auto simp: resize_def Let_def resize_layers_again split: if_splits)

section \<open>Results about the placement loader\<close>

lemma bindE_Inr_iff: "bindE m f = Inr y \<longleftrightarrow> (\<exists>x. m = Inr x \<and> f x = Inr y)"
  by (cases m) (simp_all add: bindE_def)

lemma bindE_Inr: "bindE (Inr x) f = f x"
  by (simp add: bindE_def)

lemma bindE_Inl: "bindE (Inl e) f = Inl e"
  by (simp add: bindE_def)

lemma class_of_fill: "class_of (fill_configurable_class obj conf excluded) = class_of obj"
  by (induction conf arbitrary: obj) auto

lemma dict_fill:
  "distinct (map fst conf) \<Longrightarrow>
     map_of (dict (fill_configurable_class obj conf excluded)) k =
       (if k \<in> set excluded then map_of (dict obj) k
        else (case map_of conf k of None \<Rightarrow> map_of (dict obj) k | Some v \<Rightarrow> Some v))"
proof (induction conf arbitrary: obj)
  case Nil
  then show ?case by simp
next
  case (Cons e conf)
  obtain n p where e: "e = (n, p)" by (cases e)
  from Cons.prems e have d: "distinct (map fst conf)" and n: "map_of conf n = None"
    by (auto simp: map_of_eq_None_iff)
  show ?case
    using Cons.IH [OF d] e n by (auto simp: update_conv' split: option.splits)
qed

lemma filter_single_member:
  "filter P xs = [a] \<Longrightarrow> x \<in> set xs \<Longrightarrow> P x \<Longrightarrow> x = a"
proof -
  assume f: "filter P xs = [a]" and x: "x \<in> set xs" "P x"
  from x have "x \<in> set (filter P xs)" by simp
  then show "x = a" unfolding f by simp
qed

lemma filter_single_holds: "filter P xs = [a] \<Longrightarrow> P a"
proof -
  assume f: "filter P xs = [a]"
  have "a \<in> set (filter P xs)" unfolding f by simp
  then show "P a" by simp
qed

lemma strictly_one_Inr:
  assumes "assert_strictly_one section attrs node = Inr (a, v)"
  shows "filter (\<lambda>attr. map_of section attr \<noteq> None) attrs = [a] \<and> map_of section a = Some v"
proof -
  from assms have f: "filter (\<lambda>attr. map_of section attr \<noteq> None) attrs = [a]"
    and v: "v = the (map_of section a)"
    by (auto simp: assert_strictly_one_def split: list.splits)
  from filter_single_holds [OF f] have "map_of section a \<noteq> None" .
  with f v show ?thesis by auto
qed

lemma placement_density_Inr:
  assumes "placement_density parse section node placement = Inr p"
  shows "\<exists>a v r p2. filter (\<lambda>attr. map_of section attr \<noteq> None) density_attrs = [a]
           \<and> map_of section a = Some v \<and> float_of_json parse v = Some r
           \<and> map_of (dict p2) a = Some (JFloat r)
           \<and> p = fill_configurable_class p2 section
                  [''class'', ''layer'', ''soma_radius'', ''density'', ''planar_density'',
                   ''placement_count_ratio'', ''density_ratio'']"
proof (cases "assert_strictly_one section density_attrs node")
  case (Inl e)
  with assms show ?thesis by (simp add: placement_density_def bindE_def)
next
  case (Inr av)
  obtain a v where av: "av = (a, v)" by (cases av)
  note one = Inr [unfolded av]
  show ?thesis
  proof (cases "float_of_json parse v")
    case None
    with assms one show ?thesis
      by (simp add: placement_density_def bindE_def assert_float_def)
  next
    case (Some r)
    let ?excl = "[''class'', ''layer'', ''soma_radius'', ''density'', ''planar_density'',
                   ''placement_count_ratio'', ''density_ratio'']"
    let ?p1 = "setattr a (JFloat r) placement"
    have "\<exists>p2. map_of (dict p2) a = Some (JFloat r) \<and> p = fill_configurable_class p2 section ?excl"
    proof (cases "a \<in> set [''placement_count_ratio'', ''density_ratio'']")
      case True
      with assms one Some obtain relation where
        "p = fill_configurable_class (setattr ''placement_relative_to'' relation ?p1) section ?excl"
        by (auto simp: placement_density_def bindE_def assert_float_def Let_def split: sum.splits)
      moreover from True
      have "map_of (dict (setattr ''placement_relative_to'' relation ?p1)) a = Some (JFloat r)"
        by (auto simp: setattr_def update_conv')
      ultimately show ?thesis by blast
    next
      case False
      with assms one Some have "p = fill_configurable_class ?p1 section ?excl"
        by (auto simp: placement_density_def bindE_def assert_float_def Let_def)
      moreover have "map_of (dict ?p1) a = Some (JFloat r)"
        by (simp add: setattr_def update_conv')
      ultimately show ?thesis by blast
    qed
    with strictly_one_Inr [OF one] Some show ?thesis by blast
  qed
qed

text \<open>
  C9: when the density mode of a placement section is \<^verbatim>\<open>count\<close>, the copy of the remaining
  keys runs after the validated float was stored and does not exclude \<^verbatim>\<open>count\<close>: in every
  placement that \<^const>\<open>init_placement\<close> returns, the attribute \<^verbatim>\<open>count\<close> is the raw value
  of the section. For each of the four other density keys, the attribute is the float that
  the validation produced from the value of the section.
\<close>

theorem placement_count_stays_raw:
  assumes "distinct (map fst section)"
    and "init_placement modules parse section cell_type_name placement_strategies
           = Inr (placement, placement_strategies')"
  shows "(\<forall>v. map_of section ''count'' = Some v \<longrightarrow> map_of (dict placement) ''count'' = Some v)
     \<and> (\<forall>k v. k \<in> {''density'', ''planar_density'', ''placement_count_ratio'', ''density_ratio''}
            \<longrightarrow> map_of section k = Some v
            \<longrightarrow> (\<exists>r. float_of_json parse v = Some r
                   \<and> map_of (dict placement) k = Some (JFloat r)))"
proof -
  from assms(2) obtain p0 where
    "placement_density parse section (format ''cell_types.{}.placement'' [cell_type_name]) p0
       = Inr placement"
    by (auto simp: init_placement_def bindE_Inr_iff)
  from placement_density_Inr [OF this] obtain a va r p2 where
    one: "filter (\<lambda>attr. map_of section attr \<noteq> None) density_attrs = [a]"
    and va: "map_of section a = Some va" and r: "float_of_json parse va = Some r"
    and d: "map_of (dict p2) a = Some (JFloat r)"
    and p: "placement = fill_configurable_class p2 section
                  [''class'', ''layer'', ''soma_radius'', ''density'', ''planar_density'',
                   ''placement_count_ratio'', ''density_ratio'']"
    by blast
  have count: "\<forall>v. map_of section ''count'' = Some v \<longrightarrow> map_of (dict placement) ''count'' = Some v"
    by (simp add: p dict_fill [OF assms(1)])
  have others: "\<exists>r. float_of_json parse v = Some r \<and> map_of (dict placement) k = Some (JFloat r)"
    if k: "k \<in> {''density'', ''planar_density'', ''placement_count_ratio'', ''density_ratio''}"
      and v: "map_of section k = Some v" for k v
  proof -
    from k have "k \<in> set density_attrs" by (auto simp: density_attrs_def)
    with one v have "k = a" by (auto intro: filter_single_member)
    with va v r d have "float_of_json parse v = Some r" and "map_of (dict p2) k = Some (JFloat r)"
      by simp_all
    moreover from k have "map_of (dict placement) k = map_of (dict p2) k"
      by (auto simp: p dict_fill [OF assms(1)])
    ultimately show ?thesis by simp
  qed
  from count others show ?thesis by blast
qed

lemma demo_placement_instance:
  "placement_instance demo_modules demo_parse demo_section ''granule'' = Inr demo_instance"
  "placement_instance demo_modules demo_parse demo_density_section ''granule'' = Inr demo_instance"
  by (simp_all add: placement_instance_def demo_modules_def demo_section_def
      demo_density_section_def demo_instance_def demo_class_def assert_attr_def
      assert_attr_float_def assert_float_def float_of_json_def load_configurable_class_def
      module_name_of_def class_name_of_def bindE_def setattr_def)

lemma demo_init_placement:
  "init_placement demo_modules demo_parse demo_section ''granule'' []
     = Inr (demo_instance\<lparr>dict := dict demo_instance @ [(''count'', JStr ''10'')]\<rparr>,
            [(''granule_placement'',
              demo_instance\<lparr>dict := dict demo_instance @ [(''count'', JStr ''10'')]\<rparr>)])"
  by (simp add: init_placement_def demo_placement_instance bindE_Inr)
    (simp add: placement_density_def demo_section_def demo_instance_def density_attrs_def
      assert_strictly_one_def assert_float_def float_of_json_def demo_parse_def bindE_def
      setattr_def)

lemma demo_init_placement_density:
  "init_placement demo_modules demo_parse demo_density_section ''granule'' []
     = Inr (demo_instance\<lparr>dict := dict demo_instance @ [(''density'', JFloat 3)]\<rparr>,
            [(''granule_placement'',
              demo_instance\<lparr>dict := dict demo_instance @ [(''density'', JFloat 3)]\<rparr>)])"
  by (simp add: init_placement_def demo_placement_instance bindE_Inr)
    (simp add: placement_density_def demo_density_section_def demo_instance_def density_attrs_def
      assert_strictly_one_def assert_float_def float_of_json_def demo_parse_def bindE_def
      setattr_def)

theorem placement_count_stays_raw_witness:
  "distinct (map fst demo_section)
   \<and> init_placement demo_modules demo_parse demo_section ''granule'' []
       = Inr (demo_instance\<lparr>dict := dict demo_instance @ [(''count'', JStr ''10'')]\<rparr>,
              [(''granule_placement'',
                demo_instance\<lparr>dict := dict demo_instance @ [(''count'', JStr ''10'')]\<rparr>)])
   \<and> map_of demo_section ''count'' = Some (JStr ''10'')
   \<and> map_of (dict (demo_instance\<lparr>dict := dict demo_instance @ [(''count'', JStr ''10'')]\<rparr>))
         ''count'' = Some (JStr ''10'')
   \<and> float_of_json demo_parse (JStr ''10'') = Some 10"
proof -
  have d: "distinct (map fst demo_section)" by (simp add: demo_section_def)
  have c: "map_of demo_section ''count'' = Some (JStr ''10'')" by (simp add: demo_section_def)
  have f: "float_of_json demo_parse (JStr ''10'') = Some 10"
    by (simp add: float_of_json_def demo_parse_def)
  from placement_count_stays_raw [OF d demo_init_placement] c
  have "map_of (dict (demo_instance\<lparr>dict := dict demo_instance @ [(''count'', JStr ''10'')]\<rparr>))
         ''count'' = Some (JStr ''10'')" by blast
  with d c f demo_init_placement show ?thesis by simp
qed



section \<open>Results about connection types\<close>

lemma str_nat_0: "str_nat 0 = ''0''"
  by code_simp

text \<open>
  C5: a connection type that refers to an unknown cell type should fail with a
  configuration error that names the path of the connection type. For the connection type
  \<^verbatim>\<open>pf_goc\<close>, whose \<^verbatim>\<open>from_cell_types\<close> names the undeclared \<^verbatim>\<open>ghost_cell\<close>,
  \<^const>\<open>finalize_connection\<close> raises a plain \<^verbatim>\<open>Exception\<close> whose message is built from the
  unformatted template \<^verbatim>\<open>connection_types.{}\<close>: the name \<^verbatim>\<open>pf_goc\<close> does not occur in it.
\<close>

theorem unknown_cell_type_error_lacks_connection_name:
  "finalize_connection [(''golgi_cell'', 7::nat)] [(''pf_goc'', demo_connection)] ''pf_goc''
     = Inl (Exception (''Unknown cell type '{}' in '{}.from_cell_types'' @ [CHR 0x27])
              [FJson (JStr ''ghost_cell''), FStr ''connection_types.{}''])
   \<and> format (''Unknown cell type '{}' in '{}.from_cell_types'' @ [CHR 0x27])
         [''ghost_cell'', ''connection_types.{}'']
     = ''Unknown cell type 'ghost_cell' in 'connection_types.{}.from_cell_types'' @ [CHR 0x27]"
  by (simp add: finalize_connection_def demo_connection_def assert_attr_def bindE_def)

lemma unknown_cell_type_error_any_name:
  "map_of connection_types connection_name = Some connection \<Longrightarrow>
   raw_from_cell_types connection = connected_cell # rest \<Longrightarrow>
   map_of connected_cell ''type'' = Some (JStr t) \<Longrightarrow> map_of cell_types t = None \<Longrightarrow>
   finalize_connection cell_types connection_types connection_name
     = Inl (Exception (''Unknown cell type '{}' in '{}.from_cell_types'' @ [CHR 0x27])
              [FJson (JStr t), FStr ''connection_types.{}''])"
  by (simp add: finalize_connection_def assert_attr_def bindE_def)

section \<open>Results about stack placement\<close>

lemma scale_layer_origin: "scale_layer parsed ls l = Inr l' \<Longrightarrow> origin l' = origin l \<and> name l' = name l"
  by (auto simp: scale_layer_def bindE_Inr_iff Let_def split: option.splits if_splits)

lemma scale_layers_origin:
  "scale_layers parsed ns ls = Inr ls' \<Longrightarrow>
     rel_option (\<lambda>l l'. origin l' = origin l) (map_of ls nm) (map_of ls' nm)"
proof (induction ns arbitrary: ls)
  case Nil
  then show ?case by (simp add: option.rel_refl)
next
  case (Cons n ns)
  from Cons.prems obtain l l1 where l: "map_of ls n = Some l"
    and l1: "scale_layer parsed ls l = Inr l1"
    and rest: "scale_layers parsed ns (AList.update n l1 ls) = Inr ls'"
    by (auto simp: bindE_Inr_iff split: option.splits)
  from Cons.IH [OF rest]
  have ih: "rel_option (\<lambda>l l'. origin l' = origin l) (map_of (AList.update n l1 ls) nm) (map_of ls' nm)" .
  show ?case
  proof (cases "nm = n")
    case True
    with ih l scale_layer_origin [OF l1] show ?thesis
      by (auto simp: update_conv' option_rel_Some1)
  next
    case False
    with ih show ?thesis by (simp add: update_conv')
  qed
qed

lemma place_layers_origin:
  "place_layers xs roof ls = Inr ls' \<Longrightarrow>
     rel_option (\<lambda>l l'. xz_unchanged l l' \<and> dimensions l' = dimensions l)
       (map_of ls nm) (map_of ls' nm)"
proof (induction xs arbitrary: roof ls)
  case Nil
  then show ?case by (simp add: option.rel_refl xz_unchanged_def)
next
  case (Cons x xs)
  obtain i n where x: "x = (i, n)" by (cases x)
  from Cons.prems x obtain l where l: "map_of ls n = Some l"
    and rest: "place_layers xs (fl_add roof (thickness l))
                 (AList.update n (l\<lparr>origin := (origin l)[1 := roof]\<rparr>) ls) = Inr ls'"
    by (auto split: option.splits if_splits)
  from Cons.IH [OF rest]
  have ih: "rel_option (\<lambda>l l'. xz_unchanged l l' \<and> dimensions l' = dimensions l)
     (map_of (AList.update n (l\<lparr>origin := (origin l)[1 := roof]\<rparr>) ls) nm) (map_of ls' nm)" .
  show ?case
  proof (cases "nm = n")
    case True
    with ih l show ?thesis
      by (auto simp: update_conv' option_rel_Some1 xz_unchanged_def)
  next
    case False
    with ih show ?thesis by (simp add: update_conv')
  qed
qed

lemma place_stacks_origin:
  "place_stacks stacks ls = Inr ls' \<Longrightarrow>
     rel_option (\<lambda>l l'. xz_unchanged l l' \<and> dimensions l' = dimensions l)
       (map_of ls nm) (map_of ls' nm)"
proof (induction stacks arbitrary: ls)
  case Nil
  then show ?case by (simp add: option.rel_refl xz_unchanged_def)
next
  case (Cons x stacks)
  obtain sid st where x: "x = (sid, st)" by (cases x)
  from Cons.prems x obtain ls1 where
    one: "place_layers (sorted_slots st) (Fin (stack_base_position st ! 1)) ls = Inr ls1"
    and rest: "place_stacks stacks ls1 = Inr ls'"
    by (auto simp: bindE_Inr_iff split: if_splits)
  from place_layers_origin [OF one, of nm] Cons.IH [OF rest]
  show ?case
    by (cases "map_of ls nm"; cases "map_of ls1 nm"; cases "map_of ls' nm")
      (auto simp: xz_unchanged_def)
qed

lemma place_stacks_move_base:
  "place_stacks (map (move_base fx fz) stacks) ls = place_stacks stacks ls"
proof (induction stacks arbitrary: ls)
  case Nil
  then show ?case by simp
next
  case (Cons x stacks)
  obtain sid st where x: "x = (sid, st)" by (cases x)
  define st' where
    "st' = st\<lparr>stack_position := map_option (\<lambda>p. p[0 := fx sid, 2 := fz sid]) (stack_position st)\<rparr>"
  have mb: "move_base fx fz (sid, st) = (sid, st')"
    by (simp add: move_base_def st'_def)
  have same: "stack_base_position st' ! 1 = stack_base_position st ! 1"
    "length (stack_base_position st') = length (stack_base_position st)"
    "sorted_slots st' = sorted_slots st"
    by (auto simp: st'_def stack_base_position_def sorted_slots_def split: option.splits)
  have rest: "place_stacks (map (move_base fx fz) stacks) = place_stacks stacks"
    by (rule ext) (rule Cons.IH)
  show ?case
    unfolding x list.map mb place_stacks.simps same rest ..
qed

text \<open>
  C10: stack placement changes only the vertical component of the origins. Whenever
  \<^const>\<open>finalize_layers\<close> succeeds, every layer is still there and the X and Z components of
  its origin are those it had before; and replacing the X and Z components of the
  explicit base positions of the stacks by anything else leaves the resulting layers the
  same.
\<close>

theorem finalize_layers_moves_only_y:
  assumes "finalize_layers s = Inr s'"
  shows "rel_option xz_unchanged (map_of (layers s) nm) (map_of (layers s') nm)
     \<and> map_sum id layers
          (finalize_layers (s\<lparr>layer_stacks := map (move_base fx fz) (layer_stacks s)\<rparr>))
        = Inr (layers s')"
proof -
  from assms obtain ls1 ls2 where
    one: "scale_layers (parsed_layers s) (map fst (layers s)) (layers s) = Inr ls1"
    and two: "place_stacks (layer_stacks s) ls1 = Inr ls2"
    and s': "layers s' = ls2"
    by (auto simp: finalize_layers_def bindE_Inr_iff)
  from scale_layers_origin [OF one, of nm] place_stacks_origin [OF two, of nm]
  have "rel_option xz_unchanged (map_of (layers s) nm) (map_of ls2 nm)"
    by (cases "map_of (layers s) nm"; cases "map_of ls1 nm"; cases "map_of ls2 nm")
      (auto simp: xz_unchanged_def)
  moreover have "map_sum id layers
          (finalize_layers (s\<lparr>layer_stacks := map (move_base fx fz) (layer_stacks s)\<rparr>))
        = Inr ls2"
    by (simp add: finalize_layers_def one two place_stacks_move_base bindE_Inr)
  ultimately show ?thesis using s' by simp
qed

section \<open>Results about the layer loader\<close>

lemma register_in_stack_Inr:
  assumes "register_in_stack nm sc stacks = Inr stacks'"
  shows "\<exists>sid slot. stack_id sc = Some sid \<and> position_in_stack sc = Some slot
           \<and> (stack_base sc \<noteq> None \<longrightarrow> base_of stacks sid = None)
           \<and> stacks' = AList.update sid
                 (put_layer slot nm (stack_base sc) (joined_stack stacks sid)) stacks"
  using assms
  by (auto simp: register_in_stack_def Let_def put_layer_def joined_stack_def base_of_def
      split: option.splits)

lemma init_layer_Inr:
  assumes "init_layer sc nm cfg s = Inr s'"
  shows "(case stack cfg of
            None \<Rightarrow> layer_stacks s' = layer_stacks s
          | Some sc' \<Rightarrow> register_in_stack nm sc' (layer_stacks s) = Inr (layer_stacks s'))
       \<and> (\<exists>l. layers s' = AList.update nm l (layers s) \<and> name l = nm)
       \<and> X s' = X s \<and> Z s' = Z s \<and> parsed_layers s' = parsed_layers s"
  using assms
  by (auto simp: init_layer_def bindE_Inr_iff Let_def add_layer_def Layer_def
      split: if_splits option.splits)

lemma init_layers_Nil: "init_layers sc [] s = (None, s)"
  by (simp add: init_layers_def)

lemma init_layers_Cons:
  "init_layers sc ((n, c) # es) s = (None, s') \<longleftrightarrow>
     (\<exists>s1. init_layer sc n c s = Inr s1 \<and> init_layers sc es s1 = (None, s'))"
  by (auto simp: init_layers_def raising_def split: sum.splits)

lemma put_layer_sel:
  "stack_layers (put_layer slot nm base st) = AList.update slot nm (stack_layers st)"
  "stack_position (put_layer slot nm base st)
     = (case base of None \<Rightarrow> stack_position st | Some p \<Rightarrow> Some p)"
  by (simp_all add: put_layer_def Let_def split: option.splits)

lemma slot_of_update:
  "slot_of (AList.update sid (put_layer slot nm base (joined_stack stacks sid)) stacks) sid' slot'
     = (if sid' = sid \<and> slot' = slot then Some nm else slot_of stacks sid' slot')"
  by (auto simp: slot_of_def update_conv' put_layer_sel joined_stack_def split: option.splits)

lemma base_of_update:
  "base_of (AList.update sid (put_layer slot nm base (joined_stack stacks sid)) stacks) sid'
     = (if sid' = sid \<and> base \<noteq> None then base else base_of stacks sid')"
  by (auto simp: base_of_def update_conv' put_layer_sel joined_stack_def split: option.splits)

lemma init_layer_slot:
  assumes "init_layer sc nm cfg s = Inr s'"
  shows "slot_of (layer_stacks s') sid slot
     = (if declares cfg sid slot then Some nm else slot_of (layer_stacks s) sid slot)"
proof (cases "stack cfg")
  case None
  with init_layer_Inr [OF assms] show ?thesis by (simp add: declares_def)
next
  case (Some sc')
  with init_layer_Inr [OF assms]
  have "register_in_stack nm sc' (layer_stacks s) = Inr (layer_stacks s')" by simp
  from register_in_stack_Inr [OF this] Some show ?thesis
    by (auto simp: declares_def slot_of_update)
qed

lemma init_layer_base:
  assumes "init_layer sc nm cfg s = Inr s'"
  shows "base_of (layer_stacks s') sid
     = (if declares_base cfg sid then Option.bind (stack cfg) stack_base
        else base_of (layer_stacks s) sid)
     \<and> (declares_base cfg sid \<longrightarrow> base_of (layer_stacks s) sid = None)"
proof (cases "stack cfg")
  case None
  with init_layer_Inr [OF assms] show ?thesis by (simp add: declares_base_def)
next
  case (Some sc')
  with init_layer_Inr [OF assms]
  have "register_in_stack nm sc' (layer_stacks s) = Inr (layer_stacks s')" by simp
  from register_in_stack_Inr [OF this] Some show ?thesis
    by (auto simp: declares_base_def base_of_update)
qed

lemma init_layers_slot:
  "init_layers sc es s = (None, s') \<Longrightarrow>
     slot_of (layer_stacks s') sid slot =
       (case filter (\<lambda>(n, c). declares c sid slot) es of
          [] \<Rightarrow> slot_of (layer_stacks s) sid slot
        | ds \<Rightarrow> Some (fst (last ds)))"
proof (induction es arbitrary: s)
  case Nil
  then show ?case by (simp add: init_layers_Nil)
next
  case (Cons e es)
  obtain n c where e: "e = (n, c)" by (cases e)
  from Cons.prems e obtain s1 where one: "init_layer sc n c s = Inr s1"
    and rest: "init_layers sc es s1 = (None, s')"
    by (auto simp: init_layers_Cons)
  show ?case
    using Cons.IH [OF rest] init_layer_slot [OF one, of sid slot] e
    by (auto split: list.splits)
qed

lemma init_layers_base:
  "init_layers sc es s = (None, s') \<Longrightarrow>
     (base_of (layer_stacks s) sid \<noteq> None \<longrightarrow> filter (\<lambda>(n, c). declares_base c sid) es = [])
     \<and> length (filter (\<lambda>(n, c). declares_base c sid) es) \<le> 1
     \<and> base_of (layer_stacks s') sid =
         (case filter (\<lambda>(n, c). declares_base c sid) es of
            [] \<Rightarrow> base_of (layer_stacks s) sid
          | (n, c) # ds \<Rightarrow> Option.bind (stack c) stack_base)"
proof (induction es arbitrary: s)
  case Nil
  then show ?case by (simp add: init_layers_Nil)
next
  case (Cons e es)
  obtain n c where e: "e = (n, c)" by (cases e)
  from Cons.prems e obtain s1 where one: "init_layer sc n c s = Inr s1"
    and rest: "init_layers sc es s1 = (None, s')"
    by (auto simp: init_layers_Cons)
  note ih = Cons.IH [OF rest]
  note step = init_layer_base [OF one, of sid]
  show ?case
  proof (cases "declares_base c sid")
    case True
    with step have "base_of (layer_stacks s1) sid \<noteq> None"
      by (auto simp: declares_base_def split: option.splits)
    with ih have "filter (\<lambda>(n, c). declares_base c sid) es = []" by blast
    with ih step True e show ?thesis by simp
  next
    case False
    with ih step e show ?thesis by (auto split: list.splits)
  qed
qed


















lemma fl_eq_self: "fl_eq x x \<longleftrightarrow> x \<noteq> NaN"
  by (simp add: fl_eq_def)




lemma set_update_subset: "set (AList.update k v al) \<subseteq> insert (k, v) (set al)"
  by (induction al) auto

lemma init_layer_keys:
  assumes "init_layer sc nm cfg s = Inr s'"
    and "distinct (map fst (layer_stacks s))"
    and "\<And>sid st. (sid, st) \<in> set (layer_stacks s) \<Longrightarrow> distinct (map fst (stack_layers st))"
  shows "distinct (map fst (layer_stacks s'))
     \<and> (\<forall>sid st. (sid, st) \<in> set (layer_stacks s') \<longrightarrow> distinct (map fst (stack_layers st)))"
proof (cases "stack cfg")
  case None
  with init_layer_Inr [OF assms(1)] assms(2,3) show ?thesis by auto
next
  case (Some sc')
  with init_layer_Inr [OF assms(1)]
  have "register_in_stack nm sc' (layer_stacks s) = Inr (layer_stacks s')" by simp
  from register_in_stack_Inr [OF this] obtain sid slot where
    eq: "layer_stacks s' = AList.update sid
           (put_layer slot nm (stack_base sc') (joined_stack (layer_stacks s) sid)) (layer_stacks s)"
    by blast
  have j: "distinct (map fst (stack_layers (joined_stack (layer_stacks s) sid)))"
  proof (cases "map_of (layer_stacks s) sid")
    case None
    then show ?thesis by (simp add: joined_stack_def)
  next
    case (Some st)
    then have "(sid, st) \<in> set (layer_stacks s)" by (rule map_of_SomeD)
    from assms(3) [OF this] Some show ?thesis by (simp add: joined_stack_def)
  qed
  then have new: "distinct (map fst (stack_layers
      (put_layer slot nm (stack_base sc') (joined_stack (layer_stacks s) sid))))"
    unfolding put_layer_sel by (rule distinct_update)
  have "distinct (map fst (layer_stacks s'))"
    unfolding eq using assms(2) by (rule distinct_update)
  moreover have "distinct (map fst (stack_layers st))" if "(k, st) \<in> set (layer_stacks s')" for k st
  proof -
    from that set_update_subset [of sid _ "layer_stacks s"]
    have "(k, st) = (sid, put_layer slot nm (stack_base sc') (joined_stack (layer_stacks s) sid))
        \<or> (k, st) \<in> set (layer_stacks s)"
      unfolding eq by blast
    with new assms(3) show ?thesis by auto
  qed
  ultimately show ?thesis by blast
qed

lemma init_layers_keys:
  "init_layers sc es s = (None, s') \<Longrightarrow> distinct (map fst (layer_stacks s)) \<Longrightarrow>
   (\<forall>sid st. (sid, st) \<in> set (layer_stacks s) \<longrightarrow> distinct (map fst (stack_layers st))) \<Longrightarrow>
     distinct (map fst (layer_stacks s'))
     \<and> (\<forall>sid st. (sid, st) \<in> set (layer_stacks s') \<longrightarrow> distinct (map fst (stack_layers st)))"
proof (induction es arbitrary: s)
  case Nil
  then show ?case by (simp add: init_layers_Nil)
next
  case (Cons e es)
  obtain n c where e: "e = (n, c)" by (cases e)
  from Cons.prems(1) e obtain s1 where one: "init_layer sc n c s = Inr s1"
    and rest: "init_layers sc es s1 = (None, s')"
    by (auto simp: init_layers_Cons)
  from init_layer_keys [OF one Cons.prems(2)] Cons.prems(3)
  have "distinct (map fst (layer_stacks s1))"
    and "\<forall>sid st. (sid, st) \<in> set (layer_stacks s1) \<longrightarrow> distinct (map fst (stack_layers st))"
    by blast+
  from Cons.IH [OF rest this] show ?case .
qed

lemma load_layers_phases:
  "load_layers sc x z entries = Inr s \<longleftrightarrow>
     (\<exists>s0. init_layers sc entries (initial_config x z entries) = (None, s0)
            \<and> finalize_layers s0 = Inr s)"
  by (auto simp: load_layers_def load_attr_def init_layers_def raising_def
      split: prod.splits option.splits sum.splits)

lemma finalize_layers_Inr:
  assumes "finalize_layers s0 = Inr s"
  shows "layer_stacks s =
           map (\<lambda>(sid, st). (sid, st\<lparr>stack_position := Some (stack_base_position st)\<rparr>))
             (layer_stacks s0)"
    and "\<exists>ls1. scale_layers (parsed_layers s0) (map fst (layers s0)) (layers s0) = Inr ls1
           \<and> place_stacks (layer_stacks s0) ls1 = Inr (layers s)"
  using assms by (auto simp: finalize_layers_def bindE_Inr_iff)

lemma initial_stacks: "layer_stacks (initial_config x z entries) = []"
  by (simp add: initial_config_def)


text \<open>
  C7 (as amended): in every successfully loaded configuration, a slot of a stack holds
  the name of the last layer, in document order, that declared this stack and slot (so a
  layer that declared a slot is found there unless a later layer declared the same slot),
  and no slot when no layer declared it; the slots of a stack are pairwise different; and
  at most one layer gives a stack an explicit base position, a load with two such layers
  for one stack having failed.
\<close>

theorem stack_slots_hold_last_declaration:
  assumes "load_layers sc x z entries = Inr s"
  shows "slot_of (layer_stacks s) sid slot =
           (case filter (\<lambda>(n, c). declares c sid slot) entries of
              [] \<Rightarrow> None
            | ds \<Rightarrow> Some (fst (last ds)))
     \<and> length (filter (\<lambda>(n, c). declares_base c sid) entries) \<le> 1
     \<and> (\<forall>st. map_of (layer_stacks s) sid = Some st \<longrightarrow> distinct (map fst (stack_layers st)))"
proof -
  from assms obtain s0 where
    inits: "init_layers sc entries (initial_config x z entries) = (None, s0)"
    and fin: "finalize_layers s0 = Inr s"
    by (auto simp: load_layers_phases)
  note stacks = finalize_layers_Inr(1) [OF fin]
  have m: "map_of (layer_stacks s) sid =
      map_option (\<lambda>st. st\<lparr>stack_position := Some (stack_base_position st)\<rparr>)
        (map_of (layer_stacks s0) sid)"
    unfolding stacks by (simp add: map_of_map)
  then have "slot_of (layer_stacks s) sid slot = slot_of (layer_stacks s0) sid slot"
    by (cases "map_of (layer_stacks s0) sid") (simp_all add: slot_of_def)
  moreover have "slot_of (layer_stacks (initial_config x z entries)) sid slot = None"
    by (simp add: initial_stacks slot_of_def)
  ultimately
  have a: "slot_of (layer_stacks s) sid slot =
           (case filter (\<lambda>(n, c). declares c sid slot) entries of
              [] \<Rightarrow> None
            | ds \<Rightarrow> Some (fst (last ds)))"
    using init_layers_slot [OF inits, of sid slot] by (simp split: list.splits)
  from init_layers_base [OF inits, of sid]
  have b: "length (filter (\<lambda>(n, c). declares_base c sid) entries) \<le> 1" by blast
  have c: "distinct (map fst (stack_layers st))" if "map_of (layer_stacks s) sid = Some st" for st
  proof -
    from that m obtain st0 where "map_of (layer_stacks s0) sid = Some st0"
      and st: "st = st0\<lparr>stack_position := Some (stack_base_position st0)\<rparr>"
      by auto
    then have "(sid, st0) \<in> set (layer_stacks s0)" by (auto dest: map_of_SomeD)
    with init_layers_keys [OF inits] st show ?thesis
      by (simp add: initial_stacks)
  qed
  from a b c show ?thesis by blast
qed

lemmas layer_eval =
  load_layers_def load_attr_def raising_def init_layer_def initial_config_def
  no_layer_config_def layer_origin_def layer_xz_scale_def bindE_def add_layer_def Layer_def
  finalize_layers_def scale_layer_def register_in_stack_def in_stack_def
  sorted_slots_def stack_base_position_def thickness_def volume_def fl_sum_def fl_prod_def

lemma demo_load: "load_layers True 200 200 demo_entries = Inr demo_final"
  by (simp add: layer_eval demo_entries_def demo_final_def layer_of_def)


lemma clash_load: "load_layers True 200 200 clash_entries = Inr clash_final"
  by (simp add: layer_eval clash_entries_def clash_final_def layer_of_def)

lemma demo_finalize: "finalize_layers demo_inited = Inr demo_final"
  by (simp add: layer_eval demo_inited_def demo_entries_def demo_final_def demo_stack_def
      layer_of_def)

lemma hollow_load: "load_layers True 2 2 hollow_entries = Inr hollow_final"
  by (simp add: layer_eval hollow_entries_def hollow_final_def hollow_stack_def layer_of_def
      nan_layer_def)



text \<open>
  A layer whose volume scale is negative gets the thickness \<^verbatim>\<open>nan\<close>. The load succeeds,
  the layer stacked on it gets the vertical origin \<^verbatim>\<open>nan\<close>, and the comparison of the
  top with the next origin is false, as every comparison with \<^verbatim>\<open>nan\<close>.
\<close>

lemma nan_thickness_breaks_equality:
  "load_layers True 2 2 hollow_entries = Inr hollow_final
   \<and> (1, hollow_stack) \<in> set (layer_stacks hollow_final)
   \<and> map snd (sorted_slots hollow_stack) = [''molecular'', ''top'']
   \<and> layer_thickness hollow_final ''molecular'' = NaN
   \<and> layer_top hollow_final ''molecular'' = NaN
   \<and> origin_y hollow_final ''top'' = NaN
   \<and> \<not> fl_eq (layer_top hollow_final ''molecular'') (origin_y hollow_final ''top'')"
  by (simp add: hollow_load)
    (simp add: hollow_final_def hollow_stack_def sorted_slots_def origin_y_def layer_of_def
      nan_layer_def layer_top_def layer_thickness_def thickness_def fl_eq_def)

theorem stack_slots_hold_last_declaration_witness:
  "load_layers True 200 200 demo_entries = Inr demo_final
   \<and> slot_of (layer_stacks demo_final) 1 0 = Some ''granular''
   \<and> slot_of (layer_stacks demo_final) 1 1 = Some ''purkinje''
   \<and> length (filter (\<lambda>(n, c). declares_base c 1) demo_entries) \<le> 1"
proof -
  have "filter (\<lambda>(n, c). declares c 1 0) demo_entries = [hd demo_entries]"
    and "filter (\<lambda>(n, c). declares c 1 1) demo_entries = [last demo_entries]"
    and "fst (hd demo_entries) = ''granular''" and "fst (last demo_entries) = ''purkinje''"
    by (simp_all add: demo_entries_def declares_def no_layer_config_def)
  with stack_slots_hold_last_declaration [OF demo_load, of 1 0]
    stack_slots_hold_last_declaration [OF demo_load, of 1 1] demo_load
  show ?thesis by simp
qed

text \<open>
  The claim as stated fails: two layers may declare the same slot of the same stack. The
  load succeeds, the slot holds the second layer and the first is in no stack.
\<close>

theorem later_layer_replaces_slot:
  "load_layers True 200 200 clash_entries = Inr clash_final
   \<and> declares (snd (hd clash_entries)) 1 0
   \<and> fst (hd clash_entries) = ''first''
   \<and> slot_of (layer_stacks clash_final) 1 0 = Some ''second''
   \<and> ''first'' \<notin> set (stack_names (layer_stacks clash_final))"
  by (simp add: clash_load)
    (simp add: clash_entries_def clash_final_def declares_def in_stack_def no_layer_config_def
      slot_of_def stack_names_def)

theorem finalize_layers_moves_only_y_witness:
  "finalize_layers demo_inited = Inr demo_final
   \<and> rel_option xz_unchanged (map_of (layers demo_inited) ''purkinje'')
        (map_of (layers demo_final) ''purkinje'')
   \<and> origin (the (map_of (layers demo_inited) ''purkinje'')) = [Fin 7, Fin 8, Fin 9]
   \<and> origin (the (map_of (layers demo_final) ''purkinje'')) = [Fin 7, Fin 55, Fin 9]
   \<and> map_sum id layers
        (finalize_layers
           (demo_inited\<lparr>layer_stacks := map (move_base (\<lambda>sid. 1) (\<lambda>sid. 2)) (layer_stacks demo_inited)\<rparr>))
      = Inr (layers demo_final)"
proof -
  have "origin (the (map_of (layers demo_inited) ''purkinje'')) = [Fin 7, Fin 8, Fin 9]"
    and "origin (the (map_of (layers demo_final) ''purkinje'')) = [Fin 7, Fin 55, Fin 9]"
    by (simp_all add: demo_inited_def demo_final_def layer_of_def)
  with finalize_layers_moves_only_y [OF demo_finalize, of "''purkinje''" "\<lambda>sid. 1" "\<lambda>sid. 2"]
    demo_finalize
  show ?thesis by simp
qed

section \<open>Results about volume scaling\<close>









lemma cube_of_cube_root:
  fixes q :: real
  assumes "0 \<le> q"
  shows "q powr (1 / 3) * q powr (1 / 3) * q powr (1 / 3) = q" and "root 3 q = q powr (1 / 3)"
proof -
  show "q powr (1 / 3) * q powr (1 / 3) * q powr (1 / 3) = q"
  proof (cases "q = 0")
    case True
    then show ?thesis by simp
  next
    case False
    with assms have "0 < q" by simp
    have "q powr (1 / 3) * q powr (1 / 3) * q powr (1 / 3) = q powr (1 / 3 + 1 / 3 + 1 / 3)"
      by (simp only: powr_add)
    also have "(1 / 3 + 1 / 3 + 1 / 3 :: real) = 1" by simp
    also have "q powr 1 = q" using \<open>0 < q\<close> by simp
    finally show ?thesis .
  qed
  show "root 3 q = q powr (1 / 3)"
  proof (cases "q = 0")
    case True
    then show ?thesis by simp
  next
    case False
    with assms have "0 < q" by simp
    then show ?thesis by (simp add: root_powr_inverse)
  qed
qed






lemma cube_root_8: "(8::real) powr (1 / 3) = 2" "root 3 (8::real) = 2"
proof -
  have "root 3 ((2::real) ^ 3) = 2"
    by (rule real_root_power_cancel) simp_all
  then show r: "root 3 (8::real) = 2" by simp
  then show "(8::real) powr (1 / 3) = 2"
    using cube_of_cube_root(2) [of 8] by simp
qed


lemma scaled_load: "load_layers True 2 2 scaled_entries = Inr scaled_final"
  by (simp add: layer_eval scaled_final_def scaled_entries_def layer_of_def cube_root_8)


lemma forward_load: "load_layers True 2 2 forward_entries = Inr forward_final"
  by (simp add: layer_eval forward_final_def forward_entries_def layer_of_def cube_root_8)



text \<open>
  A reference to a layer that is resolved later reads the volume that this layer has
  before finalization: \<^verbatim>\<open>molecular\<close> ends with the volume 0, not with half the final
  volume 8 of \<^verbatim>\<open>purkinje\<close>.
\<close>

lemma forward_reference_reads_initial_volume:
  "load_layers True 2 2 forward_entries = Inr forward_final
   \<and> volume (the (map_of (layers forward_final) ''purkinje'')) = Fin 8
   \<and> volume (the (map_of (layers forward_final) ''molecular'')) = Fin 0"
  by (simp add: forward_load)
    (simp add: forward_final_def layer_of_def volume_def)

lemma init_layers_wellformed:
  "init_layers sc es s = (None, s') \<Longrightarrow> distinct (map fst (layers s)) \<Longrightarrow>
   (\<And>n l. map_of (layers s) n = Some l \<Longrightarrow> name l = n) \<Longrightarrow>
     distinct (map fst (layers s')) \<and> (\<forall>n l. map_of (layers s') n = Some l \<longrightarrow> name l = n)
     \<and> parsed_layers s' = parsed_layers s"
proof (induction es arbitrary: s)
  case Nil
  then show ?case by (simp add: init_layers_Nil)
next
  case (Cons e es)
  obtain n c where e: "e = (n, c)" by (cases e)
  from Cons.prems(1) e obtain s1 where one: "init_layer sc n c s = Inr s1"
    and rest: "init_layers sc es s1 = (None, s')"
    by (auto simp: init_layers_Cons)
  from init_layer_Inr [OF one] obtain l where
    ls: "layers s1 = AList.update n l (layers s)" and l: "name l = n"
    and p: "parsed_layers s1 = parsed_layers s"
    by auto
  have d: "distinct (map fst (layers s1))"
    unfolding ls using Cons.prems(2) by (rule distinct_update)
  have ok: "\<And>k l'. map_of (layers s1) k = Some l' \<Longrightarrow> name l' = k"
    using Cons.prems(3) l by (auto simp: ls update_conv' split: if_splits)
  from Cons.IH [OF rest d ok] p show ?case by simp
qed

end
